theory Spec2Isabelle
  imports Main "HOL-Library.AList"
begin

section \<open>Strings and JavaScript values\<close>

text \<open>
  A JavaScript string is modelled as a \<^typ>\<open>string\<close>; each \<^typ>\<open>char\<close> stands for one
  UTF-16 code unit in the range 0..255.  The values the parser and the generator
  handle dynamically (\<^verbatim>\<open>number | string\<close>, \<^verbatim>\<open>any\<close>) are values of \<open>jv\<close>:
  \<^verbatim>\<open>undefined\<close>, a number, a string or a boolean.
  Numbers are the integers; \<^verbatim>\<open>NaN\<close> only occurs as the result of \<^verbatim>\<open>parseInt\<close>
  and is the value \<open>None\<close> there.  Integers are exact (the source's doubles are
  exact below \<open>2^53\<close>).
\<close>

datatype jv = Undefined | Num int | Str string | Bool bool


definition code_of :: "char \<Rightarrow> nat" where
  "code_of c = of_char c"

definition is_digit :: "char \<Rightarrow> bool" where
  "is_digit c = (48 \<le> code_of c \<and> code_of c \<le> 57)"

definition is_word :: "char \<Rightarrow> bool" where
  \<comment> \<open>\<^verbatim>\<open>\w\<close>: letters, digits and the underscore\<close>
  "is_word c = (let n = code_of c in
     (48 \<le> n \<and> n \<le> 57) \<or> (65 \<le> n \<and> n \<le> 90) \<or> n = 95 \<or> (97 \<le> n \<and> n \<le> 122))"

definition is_space :: "char \<Rightarrow> bool" where
  \<comment> \<open>\<^verbatim>\<open>\s\<close> and the characters \<^verbatim>\<open>trim\<close> removes: tab, LF, VT, FF, CR, space, NBSP\<close>
  "is_space c = (let n = code_of c in (9 \<le> n \<and> n \<le> 13) \<or> n = 32 \<or> n = 160)"

definition is_hex :: "char \<Rightarrow> bool" where
  \<comment> \<open>\<^verbatim>\<open>[0-9A-Fa-f]\<close>\<close>
  "is_hex c = (let n = code_of c in
     (48 \<le> n \<and> n \<le> 57) \<or> (65 \<le> n \<and> n \<le> 70) \<or> (97 \<le> n \<and> n \<le> 102))"

fun trim_end :: "string \<Rightarrow> string" where
  "trim_end [] = []"
| "trim_end (x # xs) = (let r = trim_end xs in if r = [] \<and> is_space x then [] else x # r)"

definition trim :: "string \<Rightarrow> string" where
  \<comment> \<open>\<^verbatim>\<open>s.trim()\<close>: white space removed at both ends\<close>
  "trim s = trim_end (dropWhile is_space s)"

fun starts_with :: "string \<Rightarrow> string \<Rightarrow> bool" where
  "starts_with s [] = True"
| "starts_with [] (p # ps) = False"
| "starts_with (x # xs) (p # ps) = (x = p \<and> starts_with xs ps)"

fun str_includes :: "string \<Rightarrow> string \<Rightarrow> bool" where
  "str_includes [] sub = starts_with [] sub"
| "str_includes (x # xs) sub = (starts_with (x # xs) sub \<or> str_includes xs sub)"

fun split_nl :: "string \<Rightarrow> string list" where
  \<comment> \<open>\<^verbatim>\<open>content.split('\n')\<close>\<close>
  "split_nl [] = [[]]"
| "split_nl (c # cs) =
     (if c = CHR 0x0A then [] # split_nl cs
      else (case split_nl cs of [] \<Rightarrow> [[c]] | l # ls \<Rightarrow> (c # l) # ls))"






subsection \<open>parseInt\<close>

definition digit_val :: "char \<Rightarrow> nat" where
  "digit_val c = (let n = code_of c in
     if 48 \<le> n \<and> n \<le> 57 then n - 48
     else if 65 \<le> n \<and> n \<le> 70 then n - 55
     else n - 87)"

definition parseInt :: "string \<Rightarrow> int option" where
  \<comment> \<open>\<^verbatim>\<open>parseInt(s)\<close> with no radix: leading white space, a sign, a \<^verbatim>\<open>0x\<close> prefix
      (radix 16), then the longest run of digits; \<open>None\<close> is \<^verbatim>\<open>NaN\<close>\<close>
  "parseInt s =
     (let t = dropWhile is_space s;
          neg = starts_with t ''-'';
          u = (if starts_with t ''-'' \<or> starts_with t ''+'' then tl t else t);
          hex = starts_with u ''0x'' \<or> starts_with u ''0X'';
          v = (if hex then drop 2 u else u);
          ds = takeWhile (if hex then is_hex else is_digit) v;
          n = foldl (\<lambda>a d. a * (if hex then 16 else 10) + digit_val d) 0 ds
      in if ds = [] then None else Some (if neg then - int n else int n))"

section \<open>The regular expressions of the parser\<close>

text \<open>
  Every pattern of the parser is a sequence of literal characters and of greedy
  \<^verbatim>\<open>+\<close> and \<^verbatim>\<open>*\<close> repetitions of one character class, with capture groups that
  are not nested.  \<open>run\<close> is the backtracking matcher at one start position: a
  repetition first tries one more character and falls back to the rest of the
  pattern.  Its result is the text consumed up to the next \<open>GClose\<close> and the
  captures that follow.  \<open>js_match\<close> is \<^verbatim>\<open>line.match(re)\<close> for a pattern without
  the global flag: the first start position that matches; it returns the capture
  groups \<^verbatim>\<open>m[1], m[2], ...\<close>.
\<close>

datatype cset = Word | Space | Digit | Hex | Not char

fun mem :: "cset \<Rightarrow> char \<Rightarrow> bool" where
  "mem Word c = is_word c"
| "mem Space c = is_space c"
| "mem Digit c = is_digit c"
| "mem Hex c = is_hex c"
| "mem (Not d) c = (c \<noteq> d)"

datatype token = Chr char | Plus cset | Star cset | GOpen | GClose

fun run :: "token list \<Rightarrow> string \<Rightarrow> (string \<times> string list) option" where
  "run [] s = Some ([], [])"
| "run (Chr c # ts) [] = None"
| "run (Chr c # ts) (x # xs) =
     (if x = c then map_option (\<lambda>(p, cs). (x # p, cs)) (run ts xs) else None)"
| "run (Plus k # ts) [] = None"
| "run (Plus k # ts) (x # xs) =
     (if mem k x then map_option (\<lambda>(p, cs). (x # p, cs)) (run (Star k # ts) xs) else None)"
| "run (Star k # ts) [] = run ts []"
| "run (Star k # ts) (x # xs) =
     (if mem k x
      then (case run (Star k # ts) xs of
              Some (p, cs) \<Rightarrow> Some (x # p, cs)
            | None \<Rightarrow> run ts (x # xs))
      else run ts (x # xs))"
| "run (GOpen # ts) s = map_option (\<lambda>(p, cs). ([], p # cs)) (run ts s)"
| "run (GClose # ts) s = map_option (\<lambda>(p, cs). ([], cs)) (run ts s)"

fun js_match :: "token list \<Rightarrow> string \<Rightarrow> string list option" where
  "js_match ts [] = map_option snd (run ts [])"
| "js_match ts (x # xs) =
     (case run ts (x # xs) of Some (p, cs) \<Rightarrow> Some cs | None \<Rightarrow> js_match ts xs)"

definition lit :: "string \<Rightarrow> token list" where
  "lit s = map Chr s"

definition grp :: "token list \<Rightarrow> token list" where
  "grp ts = GOpen # ts @ [GClose]"

definition globalVarRe :: "token list" where
  \<comment> \<open>\<^verbatim>\<open>/lv_obj_t\s*\*\s*(\w+)\s*=\s*NULL\s*;/\<close>\<close>
  "globalVarRe = lit ''lv_obj_t'' @ [Star Space] @ lit ''*'' @ [Star Space] @ grp [Plus Word]
     @ [Star Space] @ lit ''='' @ [Star Space] @ lit ''NULL'' @ [Star Space] @ lit '';''"

definition createRe :: "token list" where
  \<comment> \<open>\<^verbatim>\<open>/(\w+)\s*=\s*lv_(\w+)_create\(([^)]+)\)\s*;/\<close>\<close>
  "createRe = grp [Plus Word] @ [Star Space] @ lit ''='' @ [Star Space] @ lit ''lv_''
     @ grp [Plus Word] @ lit ''_create('' @ grp [Plus (Not CHR '')'')] @ lit '')''
     @ [Star Space] @ lit '';''"

definition textRe :: "token list" where
  \<comment> \<open>\<^verbatim>\<open>/lv_\w+_set_text\((\w+),\s*"([^"]+)"\s*\)/\<close>\<close>
  "textRe = lit ''lv_'' @ [Plus Word] @ lit ''_set_text('' @ grp [Plus Word] @ lit '',''
     @ [Star Space] @ [Chr (CHR 0x22)] @ grp [Plus (Not (CHR 0x22))] @ [Chr (CHR 0x22)]
     @ [Star Space] @ lit '')''"

definition sizeRe :: "token list" where
  \<comment> \<open>\<^verbatim>\<open>/lv_obj_set_size\((\w+),\s*([^,]+),\s*([^)]+)\)/\<close>\<close>
  "sizeRe = lit ''lv_obj_set_size('' @ grp [Plus Word] @ lit '','' @ [Star Space]
     @ grp [Plus (Not CHR '','')] @ lit '','' @ [Star Space]
     @ grp [Plus (Not CHR '')'')] @ lit '')''"

definition valueRe :: "token list" where
  \<comment> \<open>\<^verbatim>\<open>/lv_\w+_set_value\((\w+),\s*([^)]+)\)/\<close>\<close>
  "valueRe = lit ''lv_'' @ [Plus Word] @ lit ''_set_value('' @ grp [Plus Word] @ lit '',''
     @ [Star Space] @ grp [Plus (Not CHR '')'')] @ lit '')''"

definition rangeRe :: "token list" where
  \<comment> \<open>\<^verbatim>\<open>/lv_\w+_set_range\((\w+),\s*([^,]+),\s*([^)]+)\)/\<close>\<close>
  "rangeRe = lit ''lv_'' @ [Plus Word] @ lit ''_set_range('' @ grp [Plus Word] @ lit '',''
     @ [Star Space] @ grp [Plus (Not CHR '','')] @ lit '','' @ [Star Space]
     @ grp [Plus (Not CHR '')'')] @ lit '')''"

definition bgColorRe :: "token list" where
  \<comment> \<open>\<^verbatim>\<open>/lv_obj_set_style_bg_color\((\w+),\s*lv_color_hex\((0x[0-9A-Fa-f]+)\)/\<close>\<close>
  "bgColorRe = lit ''lv_obj_set_style_bg_color('' @ grp [Plus Word] @ lit '',''
     @ [Star Space] @ lit ''lv_color_hex('' @ grp (lit ''0x'' @ [Plus Hex]) @ lit '')''"

definition textColorRe :: "token list" where
  \<comment> \<open>\<^verbatim>\<open>/lv_obj_set_style_text_color\((\w+),\s*lv_color_hex\((0x[0-9A-Fa-f]+)\)/\<close>\<close>
  "textColorRe = lit ''lv_obj_set_style_text_color('' @ grp [Plus Word] @ lit '',''
     @ [Star Space] @ lit ''lv_color_hex('' @ grp (lit ''0x'' @ [Plus Hex]) @ lit '')''"

definition fontRe :: "token list" where
  \<comment> \<open>\<^verbatim>\<open>/lv_obj_set_style_text_font\((\w+),\s*&(lv_font_\w+)/\<close>\<close>
  "fontRe = lit ''lv_obj_set_style_text_font('' @ grp [Plus Word] @ lit '',''
     @ [Star Space] @ lit ''&'' @ grp (lit ''lv_font_'' @ [Plus Word])"

definition radiusRe :: "token list" where
  \<comment> \<open>\<^verbatim>\<open>/lv_obj_set_style_radius\((\w+),\s*([^,]+)/\<close>\<close>
  "radiusRe = lit ''lv_obj_set_style_radius('' @ grp [Plus Word] @ lit '',''
     @ [Star Space] @ grp [Plus (Not CHR '','')]"

definition borderOpaRe :: "token list" where
  \<comment> \<open>\<^verbatim>\<open>/lv_obj_set_style_border_opa\((\w+),\s*([^,]+)/\<close>\<close>
  "borderOpaRe = lit ''lv_obj_set_style_border_opa('' @ grp [Plus Word] @ lit '',''
     @ [Star Space] @ grp [Plus (Not CHR '','')]"

definition alignRe :: "token list" where
  \<comment> \<open>\<^verbatim>\<open>/lv_obj_align\((\w+),\s*([^,]+),\s*([^,]+),\s*([^)]+)\)/\<close>\<close>
  "alignRe = lit ''lv_obj_align('' @ grp [Plus Word] @ lit '','' @ [Star Space]
     @ grp [Plus (Not CHR '','')] @ lit '','' @ [Star Space]
     @ grp [Plus (Not CHR '','')] @ lit '','' @ [Star Space]
     @ grp [Plus (Not CHR '')'')] @ lit '')''"

definition centerRe :: "token list" where
  \<comment> \<open>\<^verbatim>\<open>/lv_obj_center\((\w+)\)/\<close>\<close>
  "centerRe = lit ''lv_obj_center('' @ grp [Plus Word] @ lit '')''"

definition pctRe :: "token list" where
  \<comment> \<open>\<^verbatim>\<open>/LV_PCT\((\d+)\)/\<close>\<close>
  "pctRe = lit ''LV_PCT('' @ grp [Plus Digit] @ lit '')''"

section \<open>The parser\<close>

text \<open>
  \<^verbatim>\<open>LVGLWidget\<close>.  The widget objects are mutable and shared between
  \<^verbatim>\<open>this.widgets\<close>, \<^verbatim>\<open>widgetMap\<close> and the \<^verbatim>\<open>children\<close> arrays, so the model keeps them
  in one list, in the order the creation statements push them, and a reference to
  a widget is its index in that list.  A \<^verbatim>\<open>Map\<close> is an association list in
  insertion order; \<^verbatim>\<open>set\<close> on a key that is present replaces the value in place
  (\<open>AList.update\<close>).  \<^verbatim>\<open>position\<close> and \<^verbatim>\<open>size\<close> are flattened into two fields each.
\<close>

record lvgl_widget =
  type :: string
  variableName :: string
  parent :: "string option"
  properties :: "(string \<times> string) list"
  styles :: "(string \<times> string) list"
  position_x :: int
  position_y :: int
  size_width :: jv
  size_height :: jv
  children :: "nat list"
  sourceLineStart :: nat
  sourceLineEnd :: nat

record parsed_file =
  fileName :: string
  widgets :: "lvgl_widget list"
  globalVariables :: "(string \<times> string) list"
  functionsMap :: "(string \<times> string list) list"

record parser =
  this_currentFile :: string
  this_lines :: "string list"
  this_widgets :: "lvgl_widget list"
  this_globalVars :: "(string \<times> string) list"
  this_currentLineIndex :: nat

definition new_parser :: parser where
  "new_parser = \<lparr>this_currentFile = [], this_lines = [], this_widgets = [],
     this_globalVars = [], this_currentLineIndex = 0\<rparr>"

definition parseSize :: "string \<Rightarrow> jv" where
  "parseSize sizeStr =
     (case (if str_includes sizeStr ''LV_PCT'' then js_match pctRe sizeStr else None) of
        Some [n] \<Rightarrow> Str (n @ ''%'')
      | _ \<Rightarrow> (case parseInt sizeStr of None \<Rightarrow> Str sizeStr | Some num \<Rightarrow> Num num))"

definition on_widget ::
  "(string \<times> nat) list \<Rightarrow> string \<Rightarrow> (lvgl_widget \<Rightarrow> lvgl_widget) \<Rightarrow> lvgl_widget list \<Rightarrow> lvgl_widget list"
where
  \<comment> \<open>\<^verbatim>\<open>const widget = widgetMap.get(varName); if (widget) { ... }\<close>\<close>
  "on_widget widgetMap varName f ws =
     (case map_of widgetMap varName of None \<Rightarrow> ws | Some k \<Rightarrow> ws[k := f (ws ! k)])"

definition setText :: "string \<Rightarrow> nat \<Rightarrow> (string \<times> nat) list \<Rightarrow> lvgl_widget list \<Rightarrow> lvgl_widget list" where
  "setText line lineIndex widgetMap ws =
     (case js_match textRe line of
        Some [varName, text] \<Rightarrow>
          on_widget widgetMap varName
            (\<lambda>w. w\<lparr>properties := AList.update ''text'' text (properties w),
                   sourceLineEnd := lineIndex\<rparr>) ws
      | _ \<Rightarrow> ws)"

definition setSize :: "string \<Rightarrow> nat \<Rightarrow> (string \<times> nat) list \<Rightarrow> lvgl_widget list \<Rightarrow> lvgl_widget list" where
  "setSize line lineIndex widgetMap ws =
     (case js_match sizeRe line of
        Some [varName, w, h] \<Rightarrow>
          on_widget widgetMap varName
            (\<lambda>wd. wd\<lparr>size_width := parseSize (trim w), size_height := parseSize (trim h),
                     sourceLineEnd := lineIndex\<rparr>) ws
      | _ \<Rightarrow> ws)"

definition setValue :: "string \<Rightarrow> nat \<Rightarrow> (string \<times> nat) list \<Rightarrow> lvgl_widget list \<Rightarrow> lvgl_widget list" where
  "setValue line lineIndex widgetMap ws =
     (case js_match valueRe line of
        Some [varName, v] \<Rightarrow>
          on_widget widgetMap varName
            (\<lambda>w. w\<lparr>properties := AList.update ''value'' (trim v) (properties w),
                   sourceLineEnd := lineIndex\<rparr>) ws
      | _ \<Rightarrow> ws)"

definition setRange :: "string \<Rightarrow> nat \<Rightarrow> (string \<times> nat) list \<Rightarrow> lvgl_widget list \<Rightarrow> lvgl_widget list" where
  "setRange line lineIndex widgetMap ws =
     (case js_match rangeRe line of
        Some [varName, lo, hi] \<Rightarrow>
          on_widget widgetMap varName
            (\<lambda>w. w\<lparr>properties := AList.update ''range_max'' (trim hi)
                                    (AList.update ''range_min'' (trim lo) (properties w)),
                   sourceLineEnd := lineIndex\<rparr>) ws
      | _ \<Rightarrow> ws)"

definition parsePropertySetters ::
  "string \<Rightarrow> nat \<Rightarrow> (string \<times> nat) list \<Rightarrow> lvgl_widget list \<Rightarrow> lvgl_widget list" where
  "parsePropertySetters line lineIndex widgetMap ws =
     setRange line lineIndex widgetMap
       (setValue line lineIndex widgetMap
         (setSize line lineIndex widgetMap
           (setText line lineIndex widgetMap ws)))"

definition setStyle ::
  "token list \<Rightarrow> string \<Rightarrow> bool \<Rightarrow> string \<Rightarrow> nat \<Rightarrow> (string \<times> nat) list \<Rightarrow> lvgl_widget list
   \<Rightarrow> lvgl_widget list" where
  \<comment> \<open>the five blocks of \<^verbatim>\<open>parseStyleSetters\<close> differ in the pattern, the key and
      whether the captured value is trimmed\<close>
  "setStyle re key trimmed line lineIndex widgetMap ws =
     (case js_match re line of
        Some [varName, v] \<Rightarrow>
          on_widget widgetMap varName
            (\<lambda>w. w\<lparr>styles := AList.update key (if trimmed then trim v else v) (styles w),
                   sourceLineEnd := lineIndex\<rparr>) ws
      | _ \<Rightarrow> ws)"

definition parseStyleSetters ::
  "string \<Rightarrow> nat \<Rightarrow> (string \<times> nat) list \<Rightarrow> lvgl_widget list \<Rightarrow> lvgl_widget list" where
  "parseStyleSetters line lineIndex widgetMap ws =
     setStyle borderOpaRe ''border_opa'' True line lineIndex widgetMap
       (setStyle radiusRe ''radius'' True line lineIndex widgetMap
         (setStyle fontRe ''text_font'' False line lineIndex widgetMap
           (setStyle textColorRe ''text_color'' False line lineIndex widgetMap
             (setStyle bgColorRe ''bg_color'' False line lineIndex widgetMap ws))))"

definition int_or_0 :: "string \<Rightarrow> int" where
  \<comment> \<open>\<^verbatim>\<open>parseInt(s) || 0\<close>\<close>
  "int_or_0 s = (case parseInt s of None \<Rightarrow> 0 | Some n \<Rightarrow> n)"

definition setAlign :: "string \<Rightarrow> nat \<Rightarrow> (string \<times> nat) list \<Rightarrow> lvgl_widget list \<Rightarrow> lvgl_widget list" where
  "setAlign line lineIndex widgetMap ws =
     (case js_match alignRe line of
        Some [varName, align, x, y] \<Rightarrow>
          on_widget widgetMap varName
            (\<lambda>w. w\<lparr>properties := AList.update ''align'' (trim align) (properties w),
                   position_x := int_or_0 (trim x), position_y := int_or_0 (trim y),
                   sourceLineEnd := lineIndex\<rparr>) ws
      | _ \<Rightarrow> ws)"

definition setCenter :: "string \<Rightarrow> nat \<Rightarrow> (string \<times> nat) list \<Rightarrow> lvgl_widget list \<Rightarrow> lvgl_widget list" where
  "setCenter line lineIndex widgetMap ws =
     (case js_match centerRe line of
        Some [varName] \<Rightarrow>
          on_widget widgetMap varName
            (\<lambda>w. w\<lparr>properties := AList.update ''align'' ''LV_ALIGN_CENTER'' (properties w),
                   sourceLineEnd := lineIndex\<rparr>) ws
      | _ \<Rightarrow> ws)"

definition parseLayoutFunctions ::
  "string \<Rightarrow> nat \<Rightarrow> (string \<times> nat) list \<Rightarrow> lvgl_widget list \<Rightarrow> lvgl_widget list" where
  "parseLayoutFunctions line lineIndex widgetMap ws =
     setCenter line lineIndex widgetMap (setAlign line lineIndex widgetMap ws)"

definition newWidget :: "string \<Rightarrow> string \<Rightarrow> string \<Rightarrow> nat \<Rightarrow> lvgl_widget" where
  \<comment> \<open>the object literal of the creation block\<close>
  "newWidget varName widgetType parentName i =
     \<lparr>type = ''lv_'' @ widgetType, variableName = varName,
      parent = (if parentName = ''parent'' then None else Some parentName),
      properties = [], styles = [], position_x = 0, position_y = 0,
      size_width = Str ''auto'', size_height = Str ''auto'', children = [],
      sourceLineStart = i, sourceLineEnd = i\<rparr>"

definition createWidget ::
  "string \<Rightarrow> nat \<Rightarrow> lvgl_widget list \<times> (string \<times> nat) list \<Rightarrow> lvgl_widget list \<times> (string \<times> nat) list"
where
  \<comment> \<open>the creation block of the loop: the new object is pushed on \<^verbatim>\<open>this.widgets\<close> and
      \<^verbatim>\<open>widgetMap\<close> is pointed at it\<close>
  "createWidget line i st =
     (case js_match createRe line of
        Some [varName, widgetType, parentArg] \<Rightarrow>
          (fst st @ [newWidget varName widgetType (trim parentArg) i],
           AList.update varName (length (fst st)) (snd st))
      | _ \<Rightarrow> st)"

definition parseLine ::
  "string \<Rightarrow> nat \<Rightarrow> lvgl_widget list \<times> (string \<times> nat) list \<Rightarrow> lvgl_widget list \<times> (string \<times> nat) list"
where
  \<comment> \<open>the body of the loop of \<^verbatim>\<open>parseWidgets\<close> for \<^verbatim>\<open>this.lines[i]\<close>\<close>
  "parseLine raw i st =
     (let line = trim raw;
          st1 = createWidget line i st;
          widgetMap = snd st1
      in (parseLayoutFunctions line i widgetMap
            (parseStyleSetters line i widgetMap
              (parsePropertySetters line i widgetMap (fst st1))),
          widgetMap))"

fun parseLines ::
  "nat \<Rightarrow> string list \<Rightarrow> lvgl_widget list \<times> (string \<times> nat) list \<Rightarrow> lvgl_widget list \<times> (string \<times> nat) list"
where
  "parseLines i [] st = st"
| "parseLines i (l # ls) st = parseLines (Suc i) ls (parseLine l i st)"

definition truthy_parent :: "string option \<Rightarrow> bool" where
  \<comment> \<open>\<^verbatim>\<open>widget.parent\<close> as a condition: neither \<^verbatim>\<open>null\<close> nor the empty string\<close>
  "truthy_parent p = (p \<noteq> None \<and> p \<noteq> Some [])"

definition linkChild :: "(string \<times> nat) list \<Rightarrow> nat \<Rightarrow> lvgl_widget list \<Rightarrow> lvgl_widget list" where
  "linkChild widgetMap k ws =
     (let widget = ws ! k in
      if truthy_parent (parent widget) \<and> parent widget \<noteq> Some ''parent''
      then (case map_of widgetMap (the (parent widget)) of
              None \<Rightarrow> ws
            | Some pk \<Rightarrow> ws[pk := (ws ! pk)\<lparr>children := children (ws ! pk) @ [k]\<rparr>])
      else ws)"

definition buildHierarchy :: "(string \<times> nat) list \<Rightarrow> lvgl_widget list \<Rightarrow> lvgl_widget list" where
  \<comment> \<open>\<^verbatim>\<open>for (const widget of widgetMap.values())\<close>, in insertion order\<close>
  "buildHierarchy widgetMap ws = foldl (\<lambda>acc k. linkChild widgetMap k acc) ws (map snd widgetMap)"

definition parseWidgets :: "parser \<Rightarrow> parser" where
  "parseWidgets p =
     (let st = parseLines 0 (this_lines p) (this_widgets p, [])
      in p\<lparr>this_widgets := buildHierarchy (snd st) (fst st)\<rparr>)"

definition extractGlobalVariables :: "parser \<Rightarrow> parser" where
  "extractGlobalVariables p =
     p\<lparr>this_globalVars :=
         foldl (\<lambda>g raw. case js_match globalVarRe (trim raw) of
                          Some [varName] \<Rightarrow> AList.update varName ''lv_obj_t'' g
                        | _ \<Rightarrow> g)
               (this_globalVars p) (this_lines p)\<rparr>"

definition parse :: "parser \<Rightarrow> string \<Rightarrow> string \<Rightarrow> parser \<times> parsed_file" where
  "parse p name content =
     (let p1 = p\<lparr>this_currentFile := name, this_lines := split_nl content, this_widgets := [],
                 this_globalVars := [], this_currentLineIndex := 0\<rparr>;
          p2 = extractGlobalVariables p1;
          p3 = parseWidgets p2
      in (p3, \<lparr>fileName = this_currentFile p3, widgets = this_widgets p3,
               globalVariables = this_globalVars p3, functionsMap = []\<rparr>))"



section \<open>The importer\<close>

text \<open>
  The widget objects of the project (\<^verbatim>\<open>any\<close> in the source).  Every field name has
  the prefix \<open>e_\<close>; a field the object does not have is \<open>Undefined\<close>.
  \<open>e_localStyles\<close> holds the entries of \<^verbatim>\<open>localStyles.definition.MAIN.DEFAULT\<close> in
  the order of \<^verbatim>\<open>Object.entries\<close>, \<open>None\<close> when that path does not exist (as for
  \<^verbatim>\<open>localStyles: {}\<close>); the value of an entry is \<open>Some v\<close> for an object with a
  \<^verbatim>\<open>value\<close> property \<open>v\<close>, and \<open>None\<close> for anything else.
\<close>

record eez_fields =
  e_type :: jv
  e_identifier :: jv
  e_left :: jv
  e_top :: jv
  e_leftUnit :: jv
  e_topUnit :: jv
  e_width :: jv
  e_height :: jv
  e_widthUnit :: jv
  e_heightUnit :: jv
  e_localStyles :: "(string \<times> jv option) list option"
  e_text :: jv
  e_textType :: jv
  e_value :: jv
  e_rangeMin :: jv
  e_rangeMax :: jv
  e_longMode :: jv
  e_recolor :: jv
  e_checkable :: jv

datatype eez_widget = EEZ (e_fields: eez_fields) (e_children: "eez_widget list")

definition lvgl_kinds :: "(string \<times> string) list" where
  \<comment> \<open>the table \<^verbatim>\<open>mapping\<close> of \<^verbatim>\<open>mapWidgetType\<close>\<close>
  "lvgl_kinds =
    [(''lv_obj'', ''LVGLContainerWidget''),
     (''lv_label'', ''LVGLLabelWidget''),
     (''lv_btn'', ''LVGLButtonWidget''),
     (''lv_arc'', ''LVGLArcWidget''),
     (''lv_slider'', ''LVGLSliderWidget''),
     (''lv_bar'', ''LVGLBarWidget''),
     (''lv_checkbox'', ''LVGLCheckboxWidget''),
     (''lv_switch'', ''LVGLSwitchWidget''),
     (''lv_dropdown'', ''LVGLDropdownWidget''),
     (''lv_img'', ''LVGLImageWidget''),
     (''lv_textarea'', ''LVGLTextareaWidget''),
     (''lv_keyboard'', ''LVGLKeyboardWidget''),
     (''lv_chart'', ''LVGLChartWidget''),
     (''lv_table'', ''LVGLTableWidget''),
     (''lv_spinner'', ''LVGLSpinnerWidget''),
     (''lv_roller'', ''LVGLRollerWidget''),
     (''lv_meter'', ''LVGLMeterWidget'')]"

definition mapWidgetType :: "string \<Rightarrow> string" where
  \<comment> \<open>\<^verbatim>\<open>mapping[lvglType] || 'LVGLContainerWidget'\<close>; the lookup is in the table's own
      entries\<close>
  "mapWidgetType lvglType =
     (case map_of lvgl_kinds lvglType of None \<Rightarrow> ''LVGLContainerWidget'' | Some t \<Rightarrow> t)"

definition styleDefinition :: "(string \<times> string) list \<Rightarrow> (string \<times> jv option) list" where
  \<comment> \<open>the object \<^verbatim>\<open>definition\<close> of \<^verbatim>\<open>convertWidget\<close>, in the order its keys are added\<close>
  "styleDefinition st =
     (case map_of st ''bg_color'' of None \<Rightarrow> []
        | Some c \<Rightarrow> [(''bg_color'', Some (Str c)), (''bg_opa'', Some (Str ''LV_OPA_COVER''))])
     @ (case map_of st ''text_color'' of None \<Rightarrow> [] | Some c \<Rightarrow> [(''text_color'', Some (Str c))])
     @ (case map_of st ''text_font'' of None \<Rightarrow> [] | Some f \<Rightarrow> [(''text_font'', Some (Str (''&'' @ f)))])
     @ (case map_of st ''radius'' of None \<Rightarrow> [] | Some r \<Rightarrow> [(''radius'', Some (Str r))])
     @ (case map_of st ''border_opa'' of None \<Rightarrow> [] | Some opa \<Rightarrow> [(''border_opa'', Some (Str opa))])"

definition is_pct :: "jv \<Rightarrow> bool" where
  \<comment> \<open>\<^verbatim>\<open>typeof v === 'string' && v.includes('%')\<close>\<close>
  "is_pct v = (case v of Str s \<Rightarrow> str_includes s ''%'' | _ \<Rightarrow> False)"

definition convertFields :: "lvgl_widget \<Rightarrow> eez_fields" where
  \<comment> \<open>\<^verbatim>\<open>convertWidget\<close> without the loop over the children\<close>
  "convertFields widget =
     (let eezWidgetType = mapWidgetType (type widget);
          props = properties widget;
          align = map_of props ''align'';
          definition = styleDefinition (styles widget)
      in \<lparr>e_type = Str eezWidgetType,
          e_identifier = Str (variableName widget),
          e_left = Num (position_x widget),
          e_top = Num (position_y widget),
          e_leftUnit =
            (case align of None \<Rightarrow> Str ''px''
             | Some a \<Rightarrow>
                 if str_includes a ''CENTER'' then Str ''center''
                 else if str_includes a ''LEFT'' then Str ''left''
                 else if str_includes a ''RIGHT'' then Str ''right''
                 else Str ''px''),
          e_topUnit =
            (case align of None \<Rightarrow> Str ''px''
             | Some a \<Rightarrow>
                 if str_includes a ''TOP'' then Str ''top''
                 else if str_includes a ''BOTTOM'' then Str ''bottom''
                 else if str_includes a ''CENTER'' then Str ''center''
                 else Str ''px''),
          e_width = size_width widget,
          e_height = size_height widget,
          e_widthUnit = (if is_pct (size_width widget) then Str ''%'' else Str ''px''),
          e_heightUnit = (if is_pct (size_height widget) then Str ''%'' else Str ''px''),
          e_localStyles = (if length definition > 0 then Some definition else None),
          e_text = (case map_of props ''text'' of None \<Rightarrow> Undefined | Some t \<Rightarrow> Str t),
          e_textType = (case map_of props ''text'' of None \<Rightarrow> Undefined | Some t \<Rightarrow> Str ''literal''),
          e_value = (case map_of props ''value'' of None \<Rightarrow> Undefined | Some v \<Rightarrow> Str v),
          e_rangeMin = (case map_of props ''range_min'' of None \<Rightarrow> Undefined | Some v \<Rightarrow> Str v),
          e_rangeMax = (case map_of props ''range_max'' of None \<Rightarrow> Undefined | Some v \<Rightarrow> Str v),
          e_longMode = (if eezWidgetType = ''LVGLLabelWidget'' then Str ''WRAP'' else Undefined),
          e_recolor = (if eezWidgetType = ''LVGLLabelWidget'' then Bool False else Undefined),
          e_checkable = (if eezWidgetType = ''LVGLButtonWidget'' then Bool False else Undefined)\<rparr>)"

text \<open>
  \<^verbatim>\<open>convertWidget\<close> follows the \<^verbatim>\<open>children\<close> references.  The recursion has fuel: the
  result \<open>None\<close> stands for a recursion that does not come back within that many
  nested calls.
\<close>

fun convertWidget :: "nat \<Rightarrow> lvgl_widget list \<Rightarrow> nat \<Rightarrow> eez_widget option" where
  "convertWidget 0 ws k = None"
| "convertWidget (Suc n) ws k =
     (let cs = map (convertWidget n ws) (children (ws ! k))
      in if None \<in> set cs then None else Some (EEZ (convertFields (ws ! k)) (map the cs)))"

definition is_top_level :: "lvgl_widget \<Rightarrow> bool" where
  \<comment> \<open>\<^verbatim>\<open>!widget.parent || widget.parent === "parent"\<close>\<close>
  "is_top_level widget = (\<not> truthy_parent (parent widget) \<or> parent widget = Some ''parent'')"

definition pageWidgets :: "nat \<Rightarrow> parsed_file \<Rightarrow> eez_widget list option" where
  \<comment> \<open>\<^verbatim>\<open>page.widgets\<close> after the loop "Convert top-level widgets" of
      \<^verbatim>\<open>createProjectFromArduino\<close>\<close>
  "pageWidgets fuel parsedFile =
     (let ws = widgets parsedFile;
          roots = filter (\<lambda>k. is_top_level (ws ! k)) [0 ..< length ws];
          cs = map (convertWidget fuel ws) roots
      in if None \<in> set cs then None else Some (map the cs))"

section \<open>The code generator\<close>















section \<open>What a match says about the text\<close>

text \<open>
  \<open>tok_ok\<close> is the text one token may consume, and \<open>collect\<close> rebuilds the result
  of \<open>run\<close> from the texts consumed by the tokens.  They state what a successful
  match implies (\<open>run_sound\<close>).
\<close>

fun tok_ok :: "token \<Rightarrow> string \<Rightarrow> bool" where
  "tok_ok (Chr c) seg = (seg = [c])"
| "tok_ok (Plus k) seg = (seg \<noteq> [] \<and> (\<forall>x\<in>set seg. mem k x))"
| "tok_ok (Star k) seg = (\<forall>x\<in>set seg. mem k x)"
| "tok_ok GOpen seg = (seg = [])"
| "tok_ok GClose seg = (seg = [])"

fun collect :: "token list \<Rightarrow> string list \<Rightarrow> string \<times> string list" where
  "collect (GOpen # ts) (g # segs) = (case collect ts segs of (p, cs) \<Rightarrow> ([], p # cs))"
| "collect (GClose # ts) (g # segs) = (case collect ts segs of (p, cs) \<Rightarrow> ([], cs))"
| "collect (t # ts) (g # segs) = (case collect ts segs of (p, cs) \<Rightarrow> (g @ p, cs))"
| "collect _ _ = ([], [])"

text \<open>
  What the property, style and layout setters may change in a widget while line \<open>i\<close>
  is processed: everything but its type, name, parent, children and first line, and
  the last line only to \<open>i\<close>.
\<close>

definition touch :: "nat \<Rightarrow> (lvgl_widget \<Rightarrow> lvgl_widget) \<Rightarrow> bool" where
  "touch i f = (\<forall>w. type (f w) = type w \<and> variableName (f w) = variableName w
     \<and> parent (f w) = parent w \<and> children (f w) = children w
     \<and> sourceLineStart (f w) = sourceLineStart w \<and> sourceLineEnd (f w) = i)"

definition same_but_end :: "nat \<Rightarrow> lvgl_widget \<Rightarrow> lvgl_widget \<Rightarrow> bool" where
  "same_but_end i w w' = (type w' = type w \<and> variableName w' = variableName w
     \<and> parent w' = parent w \<and> children w' = children w
     \<and> sourceLineStart w' = sourceLineStart w
     \<and> (sourceLineEnd w' = sourceLineEnd w \<or> sourceLineEnd w' = i))"

definition setters ::
  "string \<Rightarrow> nat \<Rightarrow> (string \<times> nat) list \<Rightarrow> lvgl_widget list \<Rightarrow> lvgl_widget list" where
  \<comment> \<open>the three setter calls of the loop body, in the order of the source\<close>
  "setters line i m ws =
     parseLayoutFunctions line i m (parseStyleSetters line i m (parsePropertySetters line i m ws))"

definition ident :: "lvgl_widget \<Rightarrow> string \<times> string \<times> string option" where
  "ident w = (type w, variableName w, parent w)"

definition created :: "string \<Rightarrow> nat \<Rightarrow> lvgl_widget list" where
  \<comment> \<open>the widget objects the creation block pushes for one line: none or one\<close>
  "created line i =
     (case js_match createRe line of
        Some [varName, widgetType, parentArg] \<Rightarrow> [newWidget varName widgetType (trim parentArg) i]
      | _ \<Rightarrow> [])"


definition ends_le :: "lvgl_widget list \<Rightarrow> lvgl_widget list \<Rightarrow> bool" where
  "ends_le ws ws' = (length ws \<le> length ws'
     \<and> (\<forall>k<length ws. sourceLineEnd (ws ! k) \<le> sourceLineEnd (ws' ! k)))"










text \<open>
  A widget whose width is set with the percentage wrapper, and the text the
  generator produces for the widget imported from it.
\<close>

definition pct_example :: string where
  "pct_example = ''w = lv_obj_create(parent);\<newline>lv_obj_set_size(w, LV_PCT(100), 50);''"

definition pct_generated :: string where
  "pct_generated = ''w = lv_obj_create(parent);\<newline>lv_obj_set_size(w, LV_PCT(100%), 50);\<newline>lv_obj_set_pos(w, 0, 0);\<newline>''"

declare js_match.simps [simp del]

lemma run_sound:
  "run ts s = Some r \<Longrightarrow>
     \<exists>segs rest. s = concat segs @ rest \<and> list_all2 tok_ok ts segs \<and> r = collect ts segs"
proof (induction ts s arbitrary: r rule: run.induct)
  case (1 s)
  then show ?case by (intro exI[of _ "[]"] exI[of _ s]) simp
next
  case (2 c ts)
  then show ?case by simp
next
  case (3 c ts x xs)
  from "3.prems" obtain r' where eq: "x = c" and r': "run ts xs = Some r'"
    and r: "r = (x # fst r', snd r')"
    by (auto split: if_splits prod.splits)
  from "3.IH"[OF eq r'] obtain segs rest where
    "xs = concat segs @ rest" "list_all2 tok_ok ts segs" "r' = collect ts segs" by blast
  then show ?case using eq r
    by (intro exI[of _ "[c] # segs"] exI[of _ rest]) (simp add: case_prod_beta)
next
  case (4 k ts)
  then show ?case by simp
next
  case (5 k ts x xs)
  from "5.prems" obtain r' where m: "mem k x" and r': "run (Star k # ts) xs = Some r'"
    and r: "r = (x # fst r', snd r')"
    by (auto split: if_splits prod.splits)
  from "5.IH"[OF m r'] obtain segs rest where
    s: "xs = concat segs @ rest" "list_all2 tok_ok (Star k # ts) segs" "r' = collect (Star k # ts) segs"
    by blast
  from s(2) obtain g segs' where g: "segs = g # segs'" "tok_ok (Star k) g" "list_all2 tok_ok ts segs'"
    by (auto simp: list_all2_Cons1)
  show ?case using s g m r
    by (intro exI[of _ "(x # g) # segs'"] exI[of _ rest]) (simp add: case_prod_beta)
next
  case (6 k ts)
  from "6.IH"[of r] "6.prems" obtain segs rest where
    "[] = concat segs @ rest" "list_all2 tok_ok ts segs" "r = collect ts segs" by auto
  then show ?case
    by (intro exI[of _ "[] # segs"] exI[of _ rest]) (simp add: case_prod_beta)
next
  case (7 k ts x xs)
  show ?case
  proof (cases "mem k x \<and> run (Star k # ts) xs \<noteq> None")
    case True
    then obtain r' where m: "mem k x" and r': "run (Star k # ts) xs = Some r'" by auto
    with "7.prems" have r: "r = (x # fst r', snd r')" by (auto split: prod.splits)
    from "7.IH"(1)[OF m r'] obtain segs rest where
      s: "xs = concat segs @ rest" "list_all2 tok_ok (Star k # ts) segs"
         "r' = collect (Star k # ts) segs" by blast
    from s(2) obtain g segs' where g: "segs = g # segs'" "tok_ok (Star k) g" "list_all2 tok_ok ts segs'"
      by (auto simp: list_all2_Cons1)
    show ?thesis using s g m r
      by (intro exI[of _ "(x # g) # segs'"] exI[of _ rest]) (simp add: case_prod_beta)
  next
    case False
    with "7.prems" have r': "run ts (x # xs) = Some r" by (auto split: if_splits option.splits)
    have "\<exists>segs rest. x # xs = concat segs @ rest \<and> list_all2 tok_ok ts segs \<and> r = collect ts segs"
    proof (cases "mem k x")
      case True
      with False have "run (Star k # ts) xs = None" by (cases "run (Star k # ts) xs") auto
      from "7.IH"(2)[OF True this r'] show ?thesis .
    next
      case False
      from "7.IH"(3)[OF False r'] show ?thesis .
    qed
    then obtain segs rest where
      "x # xs = concat segs @ rest" "list_all2 tok_ok ts segs" "r = collect ts segs" by blast
    then show ?thesis
      by (intro exI[of _ "[] # segs"] exI[of _ rest]) (simp add: case_prod_beta)
  qed
next
  case (8 ts s)
  from "8.prems" obtain r' where r': "run ts s = Some r'" and r: "r = ([], fst r' # snd r')"
    by (auto split: prod.splits)
  from "8.IH"[OF r'] obtain segs rest where
    "s = concat segs @ rest" "list_all2 tok_ok ts segs" "r' = collect ts segs" by blast
  then show ?case using r
    by (intro exI[of _ "[] # segs"] exI[of _ rest]) (simp add: case_prod_beta)
next
  case (9 ts s)
  from "9.prems" obtain r' where r': "run ts s = Some r'" and r: "r = ([], snd r')"
    by (auto split: prod.splits)
  from "9.IH"[OF r'] obtain segs rest where
    "s = concat segs @ rest" "list_all2 tok_ok ts segs" "r' = collect ts segs" by blast
  then show ?case using r
    by (intro exI[of _ "[] # segs"] exI[of _ rest]) (simp add: case_prod_beta)
qed

lemma js_match_sound:
  "js_match ts s = Some cs \<Longrightarrow>
     \<exists>pre segs rest. s = pre @ concat segs @ rest \<and> list_all2 tok_ok ts segs
        \<and> cs = snd (collect ts segs)"
proof (induction ts s rule: js_match.induct)
  case (1 ts)
  then obtain r where "run ts [] = Some r" "cs = snd r" by (auto simp: js_match.simps)
  from run_sound[OF this(1)] this(2) show ?case by (metis append_Nil)
next
  case (2 ts x xs)
  show ?case
  proof (cases "run ts (x # xs)")
    case None
    with "2.prems" have "js_match ts xs = Some cs" by (simp add: js_match.simps)
    from "2.IH"[OF None this] obtain pre segs rest where
      "xs = pre @ concat segs @ rest" "list_all2 tok_ok ts segs" "cs = snd (collect ts segs)"
      by blast
    then show ?thesis
      by (intro exI[of _ "x # pre"] exI[of _ segs] exI[of _ rest]) simp
  next
    case (Some r)
    with "2.prems" have "cs = snd r" by (auto simp: js_match.simps split: prod.splits)
    with run_sound[OF Some] show ?thesis by (metis append_Nil)
  qed
qed

lemma lit_segs: "list_all2 tok_ok (lit l) segs \<Longrightarrow> concat segs = l"
  unfolding lit_def by (induction l arbitrary: segs) (auto simp: list_all2_Cons1)

lemma starts_with_iff: "starts_with s l \<longleftrightarrow> (\<exists>b. s = l @ b)"
  by (induction s l rule: starts_with.induct) auto

lemma str_includes_iff: "str_includes s l \<longleftrightarrow> (\<exists>a b. s = a @ l @ b)"
proof (induction s)
  case Nil
  then show ?case by (auto simp: starts_with_iff)
next
  case (Cons x xs)
  show ?case
  proof
    assume "str_includes (x # xs) l"
    then consider "starts_with (x # xs) l" | "str_includes xs l" by auto
    then show "\<exists>a b. x # xs = a @ l @ b"
    proof cases
      case 1
      then obtain b where "x # xs = l @ b" by (auto simp: starts_with_iff)
      then have "x # xs = [] @ l @ b" by simp
      then show ?thesis by blast
    next
      case 2
      with Cons.IH obtain a b where "xs = a @ l @ b" by blast
      then have "x # xs = (x # a) @ l @ b" by simp
      then show ?thesis by blast
    qed
  next
    assume "\<exists>a b. x # xs = a @ l @ b"
    then obtain a b where ab: "x # xs = a @ l @ b" by blast
    show "str_includes (x # xs) l"
    proof (cases a)
      case Nil
      with ab have "starts_with (x # xs) l" by (auto simp: starts_with_iff)
      then show ?thesis by simp
    next
      case (Cons y ys)
      with ab have "xs = ys @ l @ b" by simp
      with Cons.IH have "str_includes xs l" by blast
      then show ?thesis by simp
    qed
  qed
qed

lemma js_match_anchor:
  assumes "js_match (A @ lit l @ B) s = Some cs"
  shows "str_includes s l"
proof -
  from js_match_sound[OF assms] obtain pre segs rest where
    s: "s = pre @ concat segs @ rest" and ok: "list_all2 tok_ok (A @ lit l @ B) segs" by blast
  from ok obtain sa sr where 1: "segs = sa @ sr" "list_all2 tok_ok (lit l @ B) sr"
    by (auto simp: list_all2_append1)
  from 1(2) obtain sl sb where 2: "sr = sl @ sb" "list_all2 tok_ok (lit l) sl"
    by (auto simp: list_all2_append1)
  from lit_segs[OF 2(2)] have "s = (pre @ concat sa) @ l @ (concat sb @ rest)"
    using s 1(1) 2(1) by simp
  then show ?thesis unfolding str_includes_iff by blast
qed

lemma no_anchor: "\<not> str_includes s l \<Longrightarrow> js_match (A @ lit l @ B) s = None"
  using js_match_anchor[of A l B s] by (cases "js_match (A @ lit l @ B) s") auto

lemma no_create: "\<not> str_includes s ''_create('' \<Longrightarrow> js_match createRe s = None"
  using no_anchor[of s "''_create(''" "grp [Plus Word] @ [Star Space] @ lit ''='' @ [Star Space] @ lit ''lv_'' @ grp [Plus Word]"
      "grp [Plus (Not CHR '')'')] @ lit '')'' @ [Star Space] @ lit '';''"]
  by (simp add: createRe_def)

lemma no_text: "\<not> str_includes s ''_set_text('' \<Longrightarrow> js_match textRe s = None"
  using no_anchor[of s "''_set_text(''" "lit ''lv_'' @ [Plus Word]"
      "grp [Plus Word] @ lit '','' @ [Star Space] @ [Chr (CHR 0x22)] @ grp [Plus (Not (CHR 0x22))] @ [Chr (CHR 0x22)] @ [Star Space] @ lit '')''"]
  by (simp add: textRe_def)

lemma no_size: "\<not> str_includes s ''lv_obj_set_size('' \<Longrightarrow> js_match sizeRe s = None"
  using no_anchor[of s "''lv_obj_set_size(''" "[]"] by (simp add: sizeRe_def)

lemma no_value: "\<not> str_includes s ''_set_value('' \<Longrightarrow> js_match valueRe s = None"
  using no_anchor[of s "''_set_value(''" "lit ''lv_'' @ [Plus Word]"
     "grp [Plus Word] @ lit '','' @ [Star Space] @ grp [Plus (Not CHR '')'')] @ lit '')''"]
  by (simp add: valueRe_def)

lemma no_range: "\<not> str_includes s ''_set_range('' \<Longrightarrow> js_match rangeRe s = None"
  using no_anchor[of s "''_set_range(''" "lit ''lv_'' @ [Plus Word]"
     "grp [Plus Word] @ lit '','' @ [Star Space] @ grp [Plus (Not CHR '','')] @ lit '','' @ [Star Space] @ grp [Plus (Not CHR '')'')] @ lit '')''"]
  by (simp add: rangeRe_def)

lemma no_bgColor: "\<not> str_includes s ''lv_obj_set_style_bg_color('' \<Longrightarrow> js_match bgColorRe s = None"
  using no_anchor[of s "''lv_obj_set_style_bg_color(''" "[]"] by (simp add: bgColorRe_def)

lemma no_textColor: "\<not> str_includes s ''lv_obj_set_style_text_color('' \<Longrightarrow> js_match textColorRe s = None"
  using no_anchor[of s "''lv_obj_set_style_text_color(''" "[]"] by (simp add: textColorRe_def)

lemma no_font: "\<not> str_includes s ''lv_obj_set_style_text_font('' \<Longrightarrow> js_match fontRe s = None"
  using no_anchor[of s "''lv_obj_set_style_text_font(''" "[]"] by (simp add: fontRe_def)

lemma no_radius: "\<not> str_includes s ''lv_obj_set_style_radius('' \<Longrightarrow> js_match radiusRe s = None"
  using no_anchor[of s "''lv_obj_set_style_radius(''" "[]"] by (simp add: radiusRe_def)

lemma no_borderOpa: "\<not> str_includes s ''lv_obj_set_style_border_opa('' \<Longrightarrow> js_match borderOpaRe s = None"
  using no_anchor[of s "''lv_obj_set_style_border_opa(''" "[]"] by (simp add: borderOpaRe_def)

lemma no_align: "\<not> str_includes s ''lv_obj_align('' \<Longrightarrow> js_match alignRe s = None"
  using no_anchor[of s "''lv_obj_align(''" "[]"] by (simp add: alignRe_def)

lemma no_center: "\<not> str_includes s ''lv_obj_center('' \<Longrightarrow> js_match centerRe s = None"
  using no_anchor[of s "''lv_obj_center(''" "[]"] by (simp add: centerRe_def)

lemma no_pct: "\<not> str_includes s ''LV_PCT('' \<Longrightarrow> js_match pctRe s = None"
  using no_anchor[of s "''LV_PCT(''" "[]"] by (simp add: pctRe_def)

lemma no_globalVar: "\<not> str_includes s ''lv_obj_t'' \<Longrightarrow> js_match globalVarRe s = None"
  using no_anchor[of s "''lv_obj_t''" "[]"] by (simp add: globalVarRe_def)

lemmas no_match = no_create no_text no_size no_value no_range no_bgColor no_textColor no_font
  no_radius no_borderOpa no_align no_center

lemma setText_None: "js_match textRe line = None \<Longrightarrow> setText line i m ws = ws"
  by (simp add: setText_def)

lemma setSize_None: "js_match sizeRe line = None \<Longrightarrow> setSize line i m ws = ws"
  by (simp add: setSize_def)

lemma setValue_None: "js_match valueRe line = None \<Longrightarrow> setValue line i m ws = ws"
  by (simp add: setValue_def)

lemma setRange_None: "js_match rangeRe line = None \<Longrightarrow> setRange line i m ws = ws"
  by (simp add: setRange_def)

lemma setStyle_None: "js_match re line = None \<Longrightarrow> setStyle re key t line i m ws = ws"
  by (simp add: setStyle_def)

lemma setAlign_None: "js_match alignRe line = None \<Longrightarrow> setAlign line i m ws = ws"
  by (simp add: setAlign_def)

lemma setCenter_None: "js_match centerRe line = None \<Longrightarrow> setCenter line i m ws = ws"
  by (simp add: setCenter_def)

lemma createWidget_None: "js_match createRe line = None \<Longrightarrow> createWidget line i st = st"
  by (simp add: createWidget_def)

lemmas set_None = setText_None setSize_None setValue_None setRange_None setStyle_None
  setAlign_None setCenter_None createWidget_None

section \<open>What the loop body does to the widget objects\<close>

lemma same_but_end_refl: "same_but_end i w w"
  by (simp add: same_but_end_def)

lemma same_but_end_trans:
  "same_but_end i a b \<Longrightarrow> same_but_end i b c \<Longrightarrow> same_but_end i a c"
  by (auto simp: same_but_end_def)

lemma touched_refl: "list_all2 (same_but_end i) ws ws"
  by (simp add: list_all2_refl same_but_end_refl)

lemma touched_trans:
  "list_all2 (same_but_end i) a b \<Longrightarrow> list_all2 (same_but_end i) b c
   \<Longrightarrow> list_all2 (same_but_end i) a c"
  by (rule list_all2_trans[of "same_but_end i" "same_but_end i"]) (auto intro: same_but_end_trans)

lemma on_widget_touched:
  assumes "touch i f"
  shows "list_all2 (same_but_end i) ws (on_widget m v f ws)"
proof (cases "map_of m v")
  case None
  then show ?thesis by (simp add: on_widget_def touched_refl)
next
  case (Some k)
  have "same_but_end i (ws ! j) (ws[k := f (ws ! k)] ! j)" if "j < length ws" for j
    using that assms by (cases "j = k") (auto simp: same_but_end_def touch_def)
  then show ?thesis using Some by (simp add: on_widget_def list_all2_conv_all_nth)
qed

lemma setText_touched: "list_all2 (same_but_end i) ws (setText line i m ws)"
  unfolding setText_def
  by (auto split: option.splits list.splits intro!: on_widget_touched touched_refl simp: touch_def)

lemma setSize_touched: "list_all2 (same_but_end i) ws (setSize line i m ws)"
  unfolding setSize_def
  by (auto split: option.splits list.splits intro!: on_widget_touched touched_refl simp: touch_def)

lemma setValue_touched: "list_all2 (same_but_end i) ws (setValue line i m ws)"
  unfolding setValue_def
  by (auto split: option.splits list.splits intro!: on_widget_touched touched_refl simp: touch_def)

lemma setRange_touched: "list_all2 (same_but_end i) ws (setRange line i m ws)"
  unfolding setRange_def
  by (auto split: option.splits list.splits intro!: on_widget_touched touched_refl simp: touch_def)

lemma setStyle_touched: "list_all2 (same_but_end i) ws (setStyle re key t line i m ws)"
  unfolding setStyle_def
  by (auto split: option.splits list.splits intro!: on_widget_touched touched_refl simp: touch_def)

lemma setAlign_touched: "list_all2 (same_but_end i) ws (setAlign line i m ws)"
  unfolding setAlign_def
  by (auto split: option.splits list.splits intro!: on_widget_touched touched_refl simp: touch_def)

lemma setCenter_touched: "list_all2 (same_but_end i) ws (setCenter line i m ws)"
  unfolding setCenter_def
  by (auto split: option.splits list.splits intro!: on_widget_touched touched_refl simp: touch_def)

lemma parsePropertySetters_touched:
  "list_all2 (same_but_end i) ws (parsePropertySetters line i m ws)"
  unfolding parsePropertySetters_def
  by (rule touched_trans[OF touched_trans[OF touched_trans[OF
      setText_touched setSize_touched] setValue_touched] setRange_touched])

lemma parseStyleSetters_touched:
  "list_all2 (same_but_end i) ws (parseStyleSetters line i m ws)"
  unfolding parseStyleSetters_def
  by (rule touched_trans[OF touched_trans[OF touched_trans[OF touched_trans[OF
      setStyle_touched setStyle_touched] setStyle_touched] setStyle_touched] setStyle_touched])

lemma parseLayoutFunctions_touched:
  "list_all2 (same_but_end i) ws (parseLayoutFunctions line i m ws)"
  unfolding parseLayoutFunctions_def
  by (rule touched_trans[OF setAlign_touched setCenter_touched])

lemma setters_touched: "list_all2 (same_but_end i) ws (setters line i m ws)"
  unfolding setters_def
  by (rule touched_trans[OF touched_trans[OF
      parsePropertySetters_touched parseStyleSetters_touched] parseLayoutFunctions_touched])

lemma parseLine_setters:
  "parseLine raw i st =
     (setters (trim raw) i (snd (createWidget (trim raw) i st)) (fst (createWidget (trim raw) i st)),
      snd (createWidget (trim raw) i st))"
  by (simp add: parseLine_def setters_def Let_def)

lemma touched_ident: "list_all2 (same_but_end i) ws ws' \<Longrightarrow> map ident ws' = map ident ws"
  by (induction ws ws' rule: list_all2_induct) (auto simp: same_but_end_def ident_def)

lemma touched_length: "list_all2 (same_but_end i) ws ws' \<Longrightarrow> length ws' = length ws"
  by (simp add: list_all2_lengthD)

lemma collect_length:
  "list_all2 tok_ok ts segs \<Longrightarrow> length (snd (collect ts segs)) = count_list ts GOpen"
proof (induction ts segs rule: collect.induct)
qed (auto simp: list_all2_Cons1 case_prod_beta)

lemma js_match_length:
  "js_match ts s = Some cs \<Longrightarrow> length cs = count_list ts GOpen"
  using js_match_sound[of ts s cs] collect_length by blast

lemma create_three:
  assumes "js_match createRe line = Some cs"
  shows "\<exists>v t a. cs = [v, t, a]"
proof -
  have "length cs = 3"
    using js_match_length[OF assms] by (simp add: createRe_def lit_def grp_def)
  then show ?thesis
    by (cases cs; cases "tl cs"; cases "tl (tl cs)"; cases "tl (tl (tl cs))") auto
qed

lemma createWidget_created:
  "createWidget line i st =
     (fst st @ created line i,
      (case js_match createRe line of None \<Rightarrow> snd st
       | Some cs \<Rightarrow> AList.update (hd cs) (length (fst st)) (snd st)))"
proof (cases "js_match createRe line")
  case None
  then show ?thesis by (simp add: createWidget_def created_def)
next
  case (Some cs)
  with create_three obtain v t a where "cs = [v, t, a]" by blast
  with Some show ?thesis by (simp add: createWidget_def created_def)
qed

lemma created_cases:
  "created line i = [] \<and> js_match createRe line = None
   \<or> (\<exists>v t a. js_match createRe line = Some [v, t, a] \<and> created line i = [newWidget v t (trim a) i])"
proof (cases "js_match createRe line")
  case None
  then show ?thesis by (simp add: created_def)
next
  case (Some cs)
  with create_three obtain v t a where "cs = [v, t, a]" by blast
  with Some show ?thesis by (simp add: created_def)
qed

lemma created_ident: "map ident (created line i) = map ident (created line 0)"
  using created_cases[of line i] created_cases[of line 0]
  by (auto simp: ident_def newWidget_def)


lemma parseLine_touched:
  "list_all2 (same_but_end i) (fst st @ created (trim raw) i) (fst (parseLine raw i st))"
  by (simp add: parseLine_setters createWidget_created setters_touched)

lemma parseLine_ident:
  "map ident (fst (parseLine raw i st)) = map ident (fst st) @ map ident (created (trim raw) 0)"
  using touched_ident[OF parseLine_touched[of i st raw]] created_ident[of "trim raw" i] by simp

lemma parseLines_ident:
  "map ident (fst (parseLines i ls st))
     = map ident (fst st) @ concat (map (\<lambda>l. map ident (created (trim l) 0)) ls)"
  by (induction ls arbitrary: i st) (simp_all add: parseLine_ident)







lemma ends_le_append: "ends_le ws (ws @ new)"
  by (simp add: ends_le_def nth_append)







lemma linkChild_map:
  assumes "\<And>w c. g (w\<lparr>children := c\<rparr>) = g w"
  shows "map g (linkChild m k ws) = map g ws"
proof -
  have "map g (ws[pk := (ws ! pk)\<lparr>children := c\<rparr>]) = map g ws" for pk c
  proof (cases "pk < length ws")
    case True
    then show ?thesis by (simp add: map_update assms list_update_same_conv)
  next
    case False
    then have "length ws \<le> pk" by simp
    then have "ws[pk := (ws ! pk)\<lparr>children := c\<rparr>] = ws" by (rule list_update_beyond)
    then show ?thesis by simp
  qed
  then show ?thesis
    by (simp add: linkChild_def Let_def split: option.splits)
qed

lemma buildHierarchy_map:
  assumes "\<And>w c. g (w\<lparr>children := c\<rparr>) = g w"
  shows "map g (buildHierarchy m ws) = map g ws"
proof -
  have "map g (foldl (\<lambda>acc k. linkChild m k acc) ws ks) = map g ws" for ks
    by (induction ks arbitrary: ws) (simp_all add: linkChild_map[of g, OF assms])
  then show ?thesis by (simp add: buildHierarchy_def)
qed

lemma buildHierarchy_ident: "map ident (buildHierarchy m ws) = map ident ws"
  by (rule buildHierarchy_map) (simp add: ident_def)


lemma buildHierarchy_end: "map sourceLineEnd (buildHierarchy m ws) = map sourceLineEnd ws"
  by (rule buildHierarchy_map) simp

lemma buildHierarchy_length: "length (buildHierarchy m ws) = length ws"
  using buildHierarchy_end[of m ws] by (metis length_map)

lemma parse_widgets:
  "widgets (snd (parse p name content))
     = buildHierarchy (snd (parseLines 0 (split_nl content) ([], [])))
         (fst (parseLines 0 (split_nl content) ([], [])))"
  by (simp add: parse_def parseWidgets_def extractGlobalVariables_def Let_def)


lemma parse_ident:
  "map ident (widgets (snd (parse p name content)))
     = concat (map (\<lambda>l. map ident (created (trim l) 0)) (split_nl content))"
  by (simp add: parse_widgets buildHierarchy_ident parseLines_ident)






















lemma trim_end_plain: "s \<noteq> [] \<Longrightarrow> \<not> is_space (last s) \<Longrightarrow> trim_end s = s"
proof (induction s)
  case Nil
  then show ?case by simp
next
  case (Cons x xs)
  show ?case
  proof (cases "xs = []")
    case True
    with Cons.prems show ?thesis by simp
  next
    case False
    with Cons have "trim_end xs = xs" by simp
    with False show ?thesis by (simp add: Let_def)
  qed
qed

lemma trim_plain:
  "s \<noteq> [] \<Longrightarrow> \<not> is_space (hd s) \<Longrightarrow> \<not> is_space (last s) \<Longrightarrow> trim s = s"
proof -
  assume a: "s \<noteq> []" "\<not> is_space (hd s)" "\<not> is_space (last s)"
  then have "dropWhile is_space s = s" by (cases s) simp_all
  with a show ?thesis by (simp add: trim_def trim_end_plain)
qed

section \<open>Matching a creation statement\<close>

lemma star_app:
  assumes "\<forall>x\<in>set w. mem k x" and "run (Star k # ts) s = Some (p, cs)"
  shows "run (Star k # ts) (w @ s) = Some (w @ p, cs)"
  using assms by (induction w) simp_all

lemma plus_app:
  assumes "w \<noteq> []" and "\<forall>x\<in>set w. mem k x" and "run (Star k # ts) s = Some (p, cs)"
  shows "run (Plus k # ts) (w @ s) = Some (w @ p, cs)"
proof (cases w)
  case Nil
  with assms(1) show ?thesis by simp
next
  case (Cons x w')
  with assms(2) have "\<forall>x\<in>set w'. mem k x" "mem k x" by simp_all
  from star_app[OF this(1) assms(3)] this(2) Cons show ?thesis by simp
qed





lemma create_match_arg:
  assumes "idn \<noteq> []" and "\<forall>c\<in>set idn. is_word c"
    and "kind \<noteq> []" and "\<forall>c\<in>set kind. is_word c"
    and "arg \<noteq> []" and "CHR '')'' \<notin> set arg"
  shows "js_match createRe (idn @ '' = lv_'' @ kind @ ''_create('' @ arg @ '');'')
           = Some [idn, kind, arg]"
proof -
  let ?T3 = "[GClose] @ lit '')'' @ [Star Space] @ lit '';''"
  let ?T2 = "[GClose] @ lit ''_create('' @ [GOpen, Plus (Not CHR '')'')] @ ?T3"
  let ?T1 = "[GClose, Star Space] @ lit ''='' @ [Star Space] @ lit ''lv_'' @ [GOpen, Plus Word] @ ?T2"
  have z: "run (Star (Not CHR '')'') # ?T3) '');'' = Some ([], [])"
    by (simp add: lit_def is_space_def code_of_def)
  have y: "run (Plus (Not CHR '')'') # ?T3) (arg @ '');'') = Some (arg @ [], [])"
    using assms(5,6) by (intro plus_app z) auto
  have a: "run (Star Word # ?T2) (''_create('' @ arg @ '');'') = Some ([], [arg])"
    using y by (simp add: lit_def is_word_def code_of_def)
  have b: "run (Plus Word # ?T2) (kind @ ''_create('' @ arg @ '');'') = Some (kind @ [], [arg])"
    using assms(3,4) by (intro plus_app a) simp_all
  have c: "run (Star Word # ?T1) ('' = lv_'' @ kind @ ''_create('' @ arg @ '');'')
      = Some ([], [kind, arg])"
    using b by (simp add: lit_def is_word_def is_space_def code_of_def)
  have d: "run (Plus Word # ?T1) (idn @ '' = lv_'' @ kind @ ''_create('' @ arg @ '');'')
      = Some (idn @ [], [kind, arg])"
    using assms(1,2) by (intro plus_app c) simp_all
  have e: "createRe = GOpen # Plus Word # ?T1"
    by (simp add: createRe_def lit_def grp_def)
  have "run createRe (idn @ '' = lv_'' @ kind @ ''_create('' @ arg @ '');'')
      = Some ([], [idn, kind, arg])"
    unfolding e using d by simp
  moreover obtain x xs where "idn = x # xs" using assms(1) by (cases idn) auto
  ultimately show ?thesis by (simp add: js_match.simps)
qed

section \<open>Lines that no recognizer matches\<close>

text \<open>
  Claim C8.  A line that matches none of the twelve patterns of the loop of
  \<^verbatim>\<open>parseWidgets\<close> (the creation pattern, the four property patterns, the five style
  patterns and the two layout patterns) leaves the widget state as it was: the
  list of widget objects, with every field of every widget, and the identifier
  table are unchanged.  The loop body has no error result at all.
\<close>

theorem unrecognized_line_changes_nothing:
  assumes "js_match createRe (trim raw) = None"
    and "js_match textRe (trim raw) = None"
    and "js_match sizeRe (trim raw) = None"
    and "js_match valueRe (trim raw) = None"
    and "js_match rangeRe (trim raw) = None"
    and "js_match bgColorRe (trim raw) = None"
    and "js_match textColorRe (trim raw) = None"
    and "js_match fontRe (trim raw) = None"
    and "js_match radiusRe (trim raw) = None"
    and "js_match borderOpaRe (trim raw) = None"
    and "js_match alignRe (trim raw) = None"
    and "js_match centerRe (trim raw) = None"
  shows "parseLine raw i st = st"
proof -
  have "createWidget (trim raw) i st = st"
    using assms(1) by (simp add: set_None)
  moreover have "parsePropertySetters (trim raw) i (snd st) (fst st) = fst st"
    using assms(2-5)
    by (simp add: parsePropertySetters_def set_None)
  moreover have "parseStyleSetters (trim raw) i (snd st) (fst st) = fst st"
    using assms(6-10) by (simp add: parseStyleSetters_def set_None)
  moreover have "parseLayoutFunctions (trim raw) i (snd st) (fst st) = fst st"
    using assms(11-12) by (simp add: parseLayoutFunctions_def set_None)
  ultimately show ?thesis
    by (simp add: parseLine_def)
qed

theorem unrecognized_line_changes_nothing_witness:
  "js_match createRe (trim ''  int x = 5;'') = None
   \<and> js_match textRe (trim ''  int x = 5;'') = None
   \<and> js_match sizeRe (trim ''  int x = 5;'') = None
   \<and> js_match valueRe (trim ''  int x = 5;'') = None
   \<and> js_match rangeRe (trim ''  int x = 5;'') = None
   \<and> js_match bgColorRe (trim ''  int x = 5;'') = None
   \<and> js_match textColorRe (trim ''  int x = 5;'') = None
   \<and> js_match fontRe (trim ''  int x = 5;'') = None
   \<and> js_match radiusRe (trim ''  int x = 5;'') = None
   \<and> js_match borderOpaRe (trim ''  int x = 5;'') = None
   \<and> js_match alignRe (trim ''  int x = 5;'') = None
   \<and> js_match centerRe (trim ''  int x = 5;'') = None
   \<and> parseLine ''  int x = 5;'' 3
         ([\<lparr>type = ''lv_btn'', variableName = ''x'', parent = None, properties = [],
            styles = [], position_x = 0, position_y = 0, size_width = Str ''auto'',
            size_height = Str ''auto'', children = [], sourceLineStart = 1,
            sourceLineEnd = 2\<rparr>], [(''x'', 0)])
       = ([\<lparr>type = ''lv_btn'', variableName = ''x'', parent = None, properties = [],
            styles = [], position_x = 0, position_y = 0, size_width = Str ''auto'',
            size_height = Str ''auto'', children = [], sourceLineStart = 1,
            sourceLineEnd = 2\<rparr>], [(''x'', 0)])"
proof -
  have t: "trim ''  int x = 5;'' = ''int x = 5;''"
    by (simp add: trim_def is_space_def code_of_def)
  have n: "js_match createRe ''int x = 5;'' = None" "js_match textRe ''int x = 5;'' = None"
    "js_match sizeRe ''int x = 5;'' = None" "js_match valueRe ''int x = 5;'' = None"
    "js_match rangeRe ''int x = 5;'' = None" "js_match bgColorRe ''int x = 5;'' = None"
    "js_match textColorRe ''int x = 5;'' = None" "js_match fontRe ''int x = 5;'' = None"
    "js_match radiusRe ''int x = 5;'' = None" "js_match borderOpaRe ''int x = 5;'' = None"
    "js_match alignRe ''int x = 5;'' = None" "js_match centerRe ''int x = 5;'' = None"
    by (simp_all add: no_match)
  show ?thesis
    using unrecognized_line_changes_nothing[of "''  int x = 5;''" 3
        "([\<lparr>type = ''lv_btn'', variableName = ''x'', parent = None, properties = [],
            styles = [], position_x = 0, position_y = 0, size_width = Str ''auto'',
            size_height = Str ''auto'', children = [], sourceLineStart = 1,
            sourceLineEnd = 2\<rparr>], [(''x'', 0)])"]
    unfolding t using n by simp
qed

section \<open>Source line ranges\<close>



section \<open>The tables of widget kinds\<close>



section \<open>The batch entry point\<close>



section \<open>Determinism of the generator\<close>






section \<open>One record per creation statement\<close>






section \<open>A single creation statement\<close>








section \<open>Nested calls as parent argument\<close>










section \<open>A parent that is not a widget of the file\<close>

lemma orphan_parse:
  "map ident (widgets (snd (parse p name ''c = lv_btn_create(ghost);'')))
     = [(''lv_btn'', ''c'', Some ''ghost'')]"
proof -
  have s: "split_nl ''c = lv_btn_create(ghost);'' = [''c = lv_btn_create(ghost);'']"
    by simp
  have t: "trim ''c = lv_btn_create(ghost);'' = ''c = lv_btn_create(ghost);''"
    "trim ''ghost'' = ''ghost''"
    by (rule trim_plain; simp add: is_space_def code_of_def)+
  have m: "js_match createRe ''c = lv_btn_create(ghost);'' = Some [''c'', ''btn'', ''ghost'']"
    using create_match_arg[of "''c''" "''btn''" "''ghost''"] by (simp add: is_word_def code_of_def)
  show ?thesis
    by (simp add: parse_ident s t m created_def newWidget_def ident_def)
qed

text \<open>
  Claim C3 does not hold of the code.  For the input \<^verbatim>\<open>c = lv_btn_create(ghost);\<close>,
  where no widget \<^verbatim>\<open>ghost\<close> is created, \<open>parse\<close> keeps the widget \<^verbatim>\<open>c\<close> with the
  parent name \<^verbatim>\<open>ghost\<close>, and the page that \<^verbatim>\<open>createProjectFromArduino\<close> builds from
  the result has no widget at all, whatever the fuel: the widget is neither a root
  of the page nor below one.
\<close>

theorem unresolved_parent_dropped_from_page:
  "map (\<lambda>w. (type w, variableName w, parent w))
       (widgets (snd (parse new_parser ''ui.cpp'' ''c = lv_btn_create(ghost);'')))
     = [(''lv_btn'', ''c'', Some ''ghost'')]
   \<and> pageWidgets fuel (snd (parse new_parser ''ui.cpp'' ''c = lv_btn_create(ghost);'')) = Some []"
proof -
  let ?ws = "widgets (snd (parse new_parser ''ui.cpp'' ''c = lv_btn_create(ghost);''))"
  have i: "map ident ?ws = [(''lv_btn'', ''c'', Some ''ghost'')]" by (rule orphan_parse)
  then obtain w where w: "?ws = [w]" and "ident w = (''lv_btn'', ''c'', Some ''ghost'')"
    by (cases ?ws) auto
  then have pw: "parent w = Some ''ghost''" by (simp add: ident_def)
  have 1: "map (\<lambda>w. (type w, variableName w, parent w)) ?ws = [(''lv_btn'', ''c'', Some ''ghost'')]"
    using i by (simp add: ident_def[abs_def])
  have 2: "pageWidgets fuel (snd (parse new_parser ''ui.cpp'' ''c = lv_btn_create(ghost);'')) = Some []"
  proof -
    have "\<not> is_top_level w" using pw by (simp add: is_top_level_def truthy_parent_def)
    then show ?thesis by (auto simp: pageWidgets_def Let_def w)
  qed
  from 1 2 show ?thesis by (rule conjI)
qed

end
